theory Spec2Isabelle
  imports Main "HOL-Library.Sublist"
begin

section \<open>Strings\<close>

text \<open>
  A JavaScript string is modelled as a \<^typ>\<open>string\<close> holding the UTF-8 bytes of the
  text. \<open>String.prototype.trim\<close> and \<open>String.prototype.toUpperCase\<close> belong to the
  language runtime: they follow the Unicode white-space and case-mapping tables, which
  are not part of this program. They are parameters of the model, so that every theorem
  about a handler holds for the runtime's own functions, whatever they do on text outside
  ASCII. \<open>startsWith\<close> compares the string with the given prefix position by position.
\<close>

record builtins =
  trim :: "string \<Rightarrow> string"
  toUpperCase :: "string \<Rightarrow> string"

definition startsWith :: "string \<Rightarrow> string \<Rightarrow> bool" where
  "startsWith s p = (take (length p) s = p)"

text \<open>\<open>Array.prototype.join\<close>: the elements, with the separator between neighbours.\<close>

fun join :: "string \<Rightarrow> string list \<Rightarrow> string" where
  "join sep [] = []"
| "join sep [x] = x"
| "join sep (x # y # ys) = x @ sep @ join sep (y # ys)"

text \<open>A template literal renders a number in decimal.\<close>

fun showNat :: "nat \<Rightarrow> string" where
  "showNat n =
     (if n < 10 then [''0123456789'' ! n]
      else showNat (n div 10) @ [''0123456789'' ! (n mod 10)])"

declare showNat.simps [simp del]

section \<open>The memo synthesizer\<close>

text \<open>
  \<open>SqliteDatabase._synthesizeMemo\<close>, as a function of the \<open>insights\<close> array. The chart
  emoji of the title line is U+1F4CA, four bytes in UTF-8.
\<close>

definition chart_emoji :: string where
  "chart_emoji = [CHR 0xF0, CHR 0x9F, CHR 0x93, CHR 0x8A]"

definition synthesizeMemo :: "string list \<Rightarrow> string" where
  "synthesizeMemo ins =
     (if length ins = 0 then ''No business insights have been discovered yet.''
      else
        let bullets = join ''\<newline>'' (map (\<lambda>insight. ''- '' @ insight) ins);
            memo = chart_emoji @ '' Business Intelligence Memo '' @ chart_emoji
                     @ ''\<newline>\<newline>'';
            memo = memo @ ''Key Insights Discovered:\<newline>\<newline>'';
            memo = memo @ bullets;
            memo = (if length ins > 1
                    then (memo @ ''\<newline>Summary:\<newline>'')
                           @ (''Analysis has revealed '' @ showNat (length ins)
                              @ '' key business insights that suggest opportunities for strategic optimization and growth.'')
                    else memo)
        in memo)"

text \<open>
  The lines of a text, as \<open>text.split("\n")\<close> gives them: the pieces between line
  feeds, an empty piece included.
\<close>

fun split_lines :: "string \<Rightarrow> string list" where
  "split_lines [] = [[]]"
| "split_lines (c # cs) =
     (if c = CHR 0x0A then [] # split_lines cs
      else (case split_lines cs of
              [] \<Rightarrow> [[c]]
            | l # ls \<Rightarrow> (c # l) # ls))"

section \<open>The store driver and the server state\<close>

text \<open>
  The SQLite driver is an external library. Its calls are parameters of the model: a
  \<open>driver\<close> says, for a store \<^typ>\<open>'db\<close>, what \<open>open\<close>, \<open>db.prepare\<close>,
  \<open>stmt.all\<close>, \<open>stmt.finalize\<close> and \<open>db.close\<close> do. A call that throws returns the
  fault's message (what \<open>error.message\<close> or \<open>String(error)\<close> reads). \<open>db.close\<close> is
  asked with the number of statements that were prepared on the connection and have not
  been finalized, since SQLite refuses to close a connection that still has one. Rows
  have type \<^typ>\<open>'r\<close>, and \<open>JSON.stringify\<close> on an array of rows is the parameter
  \<open>json_stringify\<close>. Every handler passes no \<open>params\<close>, so the binding is the default
  empty object throughout and is left out.
\<close>

record ('db, 'r) driver =
  drv_open :: "'db \<Rightarrow> string + 'db"
  drv_prepare :: "string \<Rightarrow> 'db \<Rightarrow> string option"
  drv_all :: "string \<Rightarrow> 'db \<Rightarrow> (string + 'r list) \<times> 'db"
  drv_finalize :: "string \<Rightarrow> 'db \<Rightarrow> string option"
  drv_close :: "nat \<Rightarrow> 'db \<Rightarrow> string option"
  json_stringify :: "'r list \<Rightarrow> string"

text \<open>
  What the executor does to the outside is recorded in a journal: \<open>Executing q\<close> at each
  entry of \<open>_executeQuery\<close> (its first statement, the log line with the query),
  \<open>Opened\<close> when \<open>open\<close> returned a connection, \<open>Closed\<close> when \<open>db.close()\<close>
  closed it, \<open>Close_rejected\<close> when \<open>db.close()\<close> threw.
\<close>

datatype event = Executing string | Opened | Closed | Close_rejected

record notification =
  notif_method :: string
  params_resource :: string

text \<open>
  The state the handlers share: the store file, the number of connections that are open,
  the journal, the \<open>insights\<close> array of the \<open>SqliteDatabase\<close> object, and the
  notifications sent to the client so far.
\<close>

record 'db server_state =
  store :: 'db
  handles :: nat
  journal :: "event list"
  insights :: "string list"
  outbox :: "notification list"

text \<open>The result of a tool handler: one text item per element of \<open>content\<close>.\<close>

record envelope =
  content :: "string list"
  isError :: bool

section \<open>The query executor\<close>

text \<open>
  The body of the \<open>try\<close> block of \<open>_executeQuery\<close>: prepare, fetch all rows, finalize.
  The first call that throws ends the block with that fault. Beside the outcome, the
  block leaves the number of statements it prepared and did not reach \<open>finalize\<close> for:
  none when \<open>prepare\<close> threw (no statement came to be) or \<open>finalize\<close> ran, one when
  \<open>stmt.all\<close> threw, which skips the \<open>finalize\<close> line.
\<close>

definition try_block ::
  "('db, 'r) driver \<Rightarrow> string \<Rightarrow> 'db server_state
     \<Rightarrow> (string + 'r list) \<times> nat \<times> 'db server_state"
where
  "try_block drv query w =
     (case drv_prepare drv query (store w) of
        Some e \<Rightarrow> (Inl e, 0, w)
      | None \<Rightarrow>
          (case drv_all drv query (store w) of
             (Inl e, s) \<Rightarrow> (Inl e, 1, w\<lparr>store := s\<rparr>)
           | (Inr result, s) \<Rightarrow>
               (case drv_finalize drv query s of
                  Some e \<Rightarrow> (Inl e, 0, w\<lparr>store := s\<rparr>)
                | None \<Rightarrow> (Inr result, 0, w\<lparr>store := s\<rparr>))))"

text \<open>
  \<open>SqliteDatabase._executeQuery\<close>. A fault of \<open>open\<close> leaves the function before the
  \<open>try\<close>. The \<open>catch\<close> clause logs and rethrows, so the outcome of the block is kept
  for the \<open>finally\<close> clause, which awaits \<open>db.close()\<close> on both outcomes. When the
  close returns, the connection is released and the call ends with the outcome of the
  block. When the close throws, its exception replaces that outcome (an exception of a
  \<open>finally\<close> clause does) and the connection stays open. \<open>Inl\<close> is the rejected
  promise, \<open>Inr\<close> the rows.
\<close>

definition executeQuery ::
  "('db, 'r) driver \<Rightarrow> string \<Rightarrow> 'db server_state \<Rightarrow> (string + 'r list) \<times> 'db server_state"
where
  "executeQuery drv query w =
     (let w0 = w\<lparr>journal := journal w @ [Executing query]\<rparr> in
      case drv_open drv (store w0) of
        Inl e \<Rightarrow> (Inl e, w0)
      | Inr s \<Rightarrow>
          (let w1 = w0\<lparr>store := s, handles := Suc (handles w0),
                        journal := journal w0 @ [Opened]\<rparr>;
               (outcome, live, w2) = try_block drv query w1
           in case drv_close drv live (store w2) of
                None \<Rightarrow>
                  (outcome, w2\<lparr>handles := handles w2 - 1, journal := journal w2 @ [Closed]\<rparr>)
              | Some ce \<Rightarrow>
                  (Inl ce, w2\<lparr>journal := journal w2 @ [Close_rejected]\<rparr>)))"

section \<open>The tool handlers\<close>

text \<open>
  Each handler returns \<open>Inr\<close> of the envelope it returns, or \<open>Inl\<close> of the fault message
  when an exception leaves the handler.
\<close>

definition read_query ::
  "builtins \<Rightarrow> ('db, 'r) driver \<Rightarrow> string \<Rightarrow> 'db server_state
     \<Rightarrow> (string + envelope) \<times> 'db server_state"
where
  "read_query rt drv query w =
     (if \<not> startsWith (toUpperCase rt (trim rt query)) ''SELECT'' then
        (Inr \<lparr>content = [''Only SELECT queries are allowed for read_query''], isError = True\<rparr>, w)
      else
        (case executeQuery drv query w of
           (Inl e, w') \<Rightarrow> (Inl e, w')
         | (Inr readQueryResults, w') \<Rightarrow>
             (Inr \<lparr>content = [json_stringify drv readQueryResults], isError = False\<rparr>, w')))"

definition write_query ::
  "builtins \<Rightarrow> ('db, 'r) driver \<Rightarrow> string \<Rightarrow> 'db server_state
     \<Rightarrow> (string + envelope) \<times> 'db server_state"
where
  "write_query rt drv query w =
     (if startsWith (toUpperCase rt (trim rt query)) ''SELECT'' then
        (Inr \<lparr>content = [''SELECT queries are not allowed for write_query''], isError = True\<rparr>, w)
      else
        (case executeQuery drv query w of
           (Inl e, w') \<Rightarrow> (Inl e, w')
         | (Inr writeQueryResults, w') \<Rightarrow>
             (Inr \<lparr>content = [json_stringify drv writeQueryResults], isError = False\<rparr>, w')))"

text \<open>
  \<open>create_table\<close> awaits the executor once before its \<open>try\<close> and once inside it; only
  the second call is covered by the \<open>catch\<close>.
\<close>

definition create_table ::
  "builtins \<Rightarrow> ('db, 'r) driver \<Rightarrow> string \<Rightarrow> 'db server_state
     \<Rightarrow> (string + envelope) \<times> 'db server_state"
where
  "create_table rt drv query w =
     (if \<not> startsWith (toUpperCase rt (trim rt query)) ''CREATE TABLE'' then
        (Inr \<lparr>content = [''Only CREATE TABLE statements are allowed''], isError = True\<rparr>, w)
      else
        (case executeQuery drv query w of
           (Inl e, w1) \<Rightarrow> (Inl e, w1)
         | (Inr _, w1) \<Rightarrow>
             (case executeQuery drv query w1 of
                (Inr _, w2) \<Rightarrow>
                  (Inr \<lparr>content = [''Table created successfully: '' @ query],
                        isError = False\<rparr>, w2)
              | (Inl e, w2) \<Rightarrow>
                  (Inr \<lparr>content = [''Error creating table: '' @ e], isError = True\<rparr>, w2))))"

definition list_tables_sql :: string where
  "list_tables_sql = ''SELECT name FROM sqlite_master WHERE type='' @ [CHR 0x27] @ ''table'' @ [CHR 0x27]"

definition list_tables ::
  "('db, 'r) driver \<Rightarrow> 'db server_state \<Rightarrow> (string + envelope) \<times> 'db server_state"
where
  "list_tables drv w =
     (case executeQuery drv list_tables_sql w of
        (Inr listTablesResults, w') \<Rightarrow>
          (Inr \<lparr>content = [json_stringify drv listTablesResults], isError = False\<rparr>, w')
      | (Inl e, w') \<Rightarrow>
          (Inr \<lparr>content = [''Error listing tables: '' @ e], isError = True\<rparr>, w'))"

definition describe_table ::
  "('db, 'r) driver \<Rightarrow> string \<Rightarrow> 'db server_state \<Rightarrow> (string + envelope) \<times> 'db server_state"
where
  "describe_table drv table_name w =
     (case executeQuery drv (''PRAGMA table_info('' @ table_name @ '')'') w of
        (Inr describeTableResults, w') \<Rightarrow>
          (Inr \<lparr>content = [json_stringify drv describeTableResults], isError = False\<rparr>, w')
      | (Inl e, w') \<Rightarrow>
          (Inr \<lparr>content = [''Error describing table: '' @ e], isError = True\<rparr>, w'))"

text \<open>
  \<open>append_insight\<close> pushes the insight, calls the synthesizer (whose result it drops) and
  sends the notification. It takes no driver: it never reaches the store. The transport
  that carries the notification is outside the model; what is sent is kept in \<open>outbox\<close>.
\<close>

definition append_insight ::
  "string \<Rightarrow> 'db server_state \<Rightarrow> (string + envelope) \<times> 'db server_state"
where
  "append_insight insight w =
     (let w1 = w\<lparr>insights := insights w @ [insight]\<rparr>;
          memo = synthesizeMemo (insights w1);
          w2 = w1\<lparr>outbox := outbox w1 @
                 [\<lparr>notif_method = ''notifications/resources/updated'',
                   params_resource = ''memo://insight''\<rparr>]\<rparr>
      in (Inr \<lparr>content = [''Insight added to memo''], isError = False\<rparr>, w2))"

text \<open>
  The memo resource: the URI it is registered under, and its read callback, which answers
  with the URI it was asked for and the synthesized memo.
\<close>

definition memo_resource_uri :: string where
  "memo_resource_uri = ''memo://insights''"

record resource_contents =
  res_uri :: string
  res_text :: string

definition memo_resource :: "string \<Rightarrow> 'db server_state \<Rightarrow> resource_contents list" where
  "memo_resource uri w = [\<lparr>res_uri = uri, res_text = synthesizeMemo (insights w)\<rparr>]"

text \<open>
  The six tools as one operation type, and a session: the calls of a client, one after the
  other. A call whose handler throws ends that call only; the server goes on with the
  state the call left.
\<close>

datatype operation =
    Read_query string
  | Write_query string
  | Create_table string
  | List_tables
  | Describe_table string
  | Append_insight string

fun call_tool ::
  "builtins \<Rightarrow> ('db, 'r) driver \<Rightarrow> operation \<Rightarrow> 'db server_state
     \<Rightarrow> (string + envelope) \<times> 'db server_state"
where
  "call_tool rt drv (Read_query q) w = read_query rt drv q w"
| "call_tool rt drv (Write_query q) w = write_query rt drv q w"
| "call_tool rt drv (Create_table q) w = create_table rt drv q w"
| "call_tool rt drv List_tables w = list_tables drv w"
| "call_tool rt drv (Describe_table t) w = describe_table drv t w"
| "call_tool rt drv (Append_insight s) w = append_insight s w"

fun session ::
  "builtins \<Rightarrow> ('db, 'r) driver \<Rightarrow> operation list \<Rightarrow> 'db server_state \<Rightarrow> 'db server_state"
where
  "session rt drv [] w = w"
| "session rt drv (x # xs) w = session rt drv xs (snd (call_tool rt drv x w))"


section \<open>Instances for concrete runs\<close>

text \<open>
  For running the handlers on concrete statements, the two string functions restricted
  to ASCII text, where they strip tab, line feed, vertical tab, form feed, carriage
  return and space from both ends, and map \<open>a\<close>..\<open>z\<close> to \<open>A\<close>..\<open>Z\<close>. On text made of
  ASCII characters only this is what the runtime computes; the concrete runs below use
  such text only.
\<close>

definition isWhiteSpace :: "char \<Rightarrow> bool" where
  "isWhiteSpace c = (c \<in> set [CHR 0x09, CHR 0x0A, CHR 0x0B, CHR 0x0C, CHR 0x0D, CHR 0x20])"

definition ascii_trim :: "string \<Rightarrow> string" where
  "ascii_trim s = rev (dropWhile isWhiteSpace (rev (dropWhile isWhiteSpace s)))"

definition ascii_toUpperChar :: "char \<Rightarrow> char" where
  "ascii_toUpperChar c =
     (case map_of (zip ''abcdefghijklmnopqrstuvwxyz'' ''ABCDEFGHIJKLMNOPQRSTUVWXYZ'') c of
        Some u \<Rightarrow> u
      | None \<Rightarrow> c)"

definition ascii :: builtins where
  "ascii = \<lparr>trim = ascii_trim, toUpperCase = map ascii_toUpperChar\<rparr>"

text \<open>
  A store that knows its tables by name and column names, and the keys held by one
  table \<open>u\<close> with an integer primary key, behind a driver that answers a handful of
  statements as SQLite does. \<open>CREATE TABLE\<close> of a name the store lacks adds the table;
  of a name it has, \<open>prepare\<close> rejects it (\<open>table t already exists\<close>).
  \<open>INSERT INTO u VALUES (1)\<close> is prepared when \<open>u\<close> exists and, when run, adds the key,
  or fails with the constraint fault when the key is there already: that fault comes
  from \<open>stmt.all\<close>, not from \<open>prepare\<close>. The catalogue query returns the table names and
  \<open>PRAGMA table_info(t)\<close> the column names of \<open>t\<close>. Any other text is rejected by
  \<open>prepare\<close>. \<open>close\<close> is rejected while a statement of the connection is not
  finalized. A row is shown by its one cell, and rows are joined with commas.
\<close>

record mini_store =
  tables :: "(string \<times> string list) list"
  u_keys :: "string list"

definition scenario_create :: string where
  "scenario_create = ''CREATE TABLE t (id INTEGER, name TEXT)''"

definition key_create :: string where
  "key_create = ''CREATE TABLE u (id INTEGER PRIMARY KEY)''"

definition key_insert :: string where
  "key_insert = ''INSERT INTO u VALUES (1)''"

definition mini_prepare :: "string \<Rightarrow> mini_store \<Rightarrow> string option" where
  "mini_prepare q s =
     (if q = scenario_create then
        (if ''t'' \<in> set (map fst (tables s)) then Some ''SQLITE_ERROR: table t already exists''
         else None)
      else if q = key_create then
        (if ''u'' \<in> set (map fst (tables s)) then Some ''SQLITE_ERROR: table u already exists''
         else None)
      else if q = key_insert then
        (if ''u'' \<in> set (map fst (tables s)) then None
         else Some ''SQLITE_ERROR: no such table: u'')
      else if q = list_tables_sql \<or> q = ''PRAGMA table_info(t)'' then None
      else Some ''SQLITE_ERROR: syntax error or no such table'')"

definition mini_all :: "string \<Rightarrow> mini_store \<Rightarrow> (string + string list) \<times> mini_store" where
  "mini_all q s =
     (if q = scenario_create then (Inr [], s\<lparr>tables := tables s @ [(''t'', [''id'', ''name''])]\<rparr>)
      else if q = key_create then (Inr [], s\<lparr>tables := tables s @ [(''u'', [''id''])]\<rparr>)
      else if q = key_insert then
        (if ''1'' \<in> set (u_keys s)
         then (Inl ''SQLITE_CONSTRAINT: UNIQUE constraint failed: u.id'', s)
         else (Inr [], s\<lparr>u_keys := u_keys s @ [''1'']\<rparr>))
      else if q = list_tables_sql then (Inr (map fst (tables s)), s)
      else (Inr (concat (map snd (filter (\<lambda>tc. fst tc = ''t'') (tables s)))), s))"

definition mini_close :: "nat \<Rightarrow> mini_store \<Rightarrow> string option" where
  "mini_close live s =
     (if 0 < live then Some ''SQLITE_BUSY: unable to close due to unfinalized statements''
      else None)"

definition mini :: "(mini_store, string) driver" where
  "mini = \<lparr>drv_open = Inr, drv_prepare = mini_prepare, drv_all = mini_all,
            drv_finalize = (\<lambda>q s. None), drv_close = mini_close,
            json_stringify = join '',''\<rparr>"

definition fresh :: "mini_store server_state" where
  "fresh = \<lparr>store = \<lparr>tables = [], u_keys = []\<rparr>, handles = 0, journal = [],
             insights = [], outbox = []\<rparr>"

text \<open>The state after the scenario's statement has run once on the fresh store.\<close>

definition created :: "mini_store server_state" where
  "created = fresh\<lparr>store := \<lparr>tables = [(''t'', [''id'', ''name''])], u_keys = []\<rparr>,
                    journal := [Executing scenario_create, Opened, Closed]\<rparr>"

text \<open>A state whose store has the table \<open>u\<close> with the key 1 in it.\<close>

definition keyed :: "mini_store server_state" where
  "keyed = fresh\<lparr>store := \<lparr>tables = [(''u'', [''id''])], u_keys = [''1'']\<rparr>\<rparr>"

text \<open>
  An insight of three lines, the last two looking like what the synthesizer writes
  itself.
\<close>

definition crafted_insight :: string where
  "crafted_insight =
     ''x\<newline>- y\<newline>Summary:\<newline>Analysis has revealed 2 key business insights that suggest opportunities for strategic optimization and growth.''"

section \<open>Reading the journal and a session\<close>

text \<open>The statements the executor was entered with, in order, read off a journal.\<close>

fun invocations :: "event list \<Rightarrow> string list" where
  "invocations [] = []"
| "invocations (Executing q # es) = q # invocations es"
| "invocations (Opened # es) = invocations es"
| "invocations (Closed # es) = invocations es"
| "invocations (Close_rejected # es) = invocations es"

text \<open>The insights a list of calls asks to append, in order.\<close>

fun appended :: "operation list \<Rightarrow> string list" where
  "appended [] = []"
| "appended (Append_insight s # xs) = s # appended xs"
| "appended (_ # xs) = appended xs"

section \<open>The executor: what every call leaves behind\<close>

lemma invocations_append: "invocations (xs @ ys) = invocations xs @ invocations ys"
  by (induction xs rule: invocations.induct) simp_all

lemma try_block_frame:
  "handles (snd (snd (try_block drv q w))) = handles w"
  "journal (snd (snd (try_block drv q w))) = journal w"
  "insights (snd (snd (try_block drv q w))) = insights w"
  "outbox (snd (snd (try_block drv q w))) = outbox w"
  by (simp_all add: try_block_def split: option.split sum.split prod.split)

lemma executeQuery_open_fault:
  "drv_open drv (store w) = Inl e \<Longrightarrow>
     executeQuery drv q w = (Inl e, w\<lparr>journal := journal w @ [Executing q]\<rparr>)"
  by (simp add: executeQuery_def)

lemma executeQuery_invocations:
  "invocations (journal (snd (executeQuery drv q w))) = invocations (journal w) @ [q]"
  by (simp add: executeQuery_def Let_def split_beta try_block_frame invocations_append
      split: sum.split option.split)

lemma executeQuery_ledger:
  "insights (snd (executeQuery drv q w)) = insights w"
  "outbox (snd (executeQuery drv q w)) = outbox w"
  by (simp_all add: executeQuery_def Let_def split_beta try_block_frame
      split: sum.split option.split)

lemma executeQuery_changes_state: "snd (executeQuery drv q w) \<noteq> w"
proof
  assume "snd (executeQuery drv q w) = w"
  then have "invocations (journal (snd (executeQuery drv q w))) = invocations (journal w)"
    by simp
  then show False by (simp add: executeQuery_invocations)
qed

text \<open>
  When the driver accepts the close, the call leaves as many connections open as it
  found, and ends with the outcome of the \<open>try\<close> block.
\<close>

lemma executeQuery_closed:
  assumes "drv_open drv (store w) = Inr s"
      and "try_block drv q (w\<lparr>store := s, handles := Suc (handles w),
             journal := journal w @ [Executing q, Opened]\<rparr>) = (outcome, live, w2)"
      and "drv_close drv live (store w2) = None"
  shows "fst (executeQuery drv q w) = outcome"
    and "handles (snd (executeQuery drv q w)) = handles w"
    and "journal (snd (executeQuery drv q w)) = journal w @ [Executing q, Opened, Closed]"
  using assms try_block_frame [of drv q "w\<lparr>store := s, handles := Suc (handles w),
             journal := journal w @ [Executing q, Opened]\<rparr>"]
  by (simp_all add: executeQuery_def Let_def)

lemmas ascii_defs = startsWith_def ascii_def ascii_trim_def isWhiteSpace_def ascii_toUpperChar_def

lemmas mini_defs = mini_def mini_prepare_def mini_all_def mini_close_def fresh_def
  scenario_create_def key_create_def key_insert_def list_tables_sql_def

lemma mini_insert_again:
  "drv_open mini (store keyed) = Inr (store keyed)
   \<and> drv_prepare mini key_insert (store keyed) = None
   \<and> drv_all mini key_insert (store keyed) =
       (Inl ''SQLITE_CONSTRAINT: UNIQUE constraint failed: u.id'', store keyed)
   \<and> drv_close mini 1 (store keyed) =
       Some ''SQLITE_BUSY: unable to close due to unfinalized statements''"
  by (simp add: mini_defs keyed_def)

text \<open>
  Claim C8. What the code does when \<open>stmt.all\<close> throws: the statement was prepared, the
  \<open>finalize\<close> line is skipped, and the \<open>finally\<close> clause calls \<open>db.close()\<close> on a
  connection that still has that statement. Whenever the driver rejects such a close,
  as SQLite does, the call of the executor ends with the close's fault in place of the
  store's fault, and the connection it opened is still open when it returns: one more
  open connection than before the call.
\<close>

theorem close_rejected_leaves_connection_open:
  assumes "drv_open drv (store w) = Inr s"
      and "drv_prepare drv q s = None"
      and "drv_all drv q s = (Inl e, s')"
      and "drv_close drv 1 s' = Some ce"
  shows "executeQuery drv q w =
           (Inl ce, w\<lparr>store := s', handles := Suc (handles w),
                      journal := journal w @ [Executing q, Opened, Close_rejected]\<rparr>)"
  using assms by (simp add: executeQuery_def try_block_def Let_def)

theorem close_rejected_leaves_connection_open_witness:
  "drv_open mini (store keyed) = Inr (store keyed)
   \<and> drv_prepare mini key_insert (store keyed) = None
   \<and> drv_all mini key_insert (store keyed) =
       (Inl ''SQLITE_CONSTRAINT: UNIQUE constraint failed: u.id'', store keyed)
   \<and> drv_close mini 1 (store keyed) =
       Some ''SQLITE_BUSY: unable to close due to unfinalized statements''
   \<and> executeQuery mini key_insert keyed =
       (Inl ''SQLITE_BUSY: unable to close due to unfinalized statements'',
        keyed\<lparr>handles := 1, journal := [Executing key_insert, Opened, Close_rejected]\<rparr>)
   \<and> handles keyed = 0
   \<and> handles (snd (executeQuery mini key_insert keyed)) = 1"
proof -
  have run: "executeQuery mini key_insert keyed =
       (Inl ''SQLITE_BUSY: unable to close due to unfinalized statements'',
        keyed\<lparr>handles := 1, journal := [Executing key_insert, Opened, Close_rejected]\<rparr>)"
    using mini_insert_again
      close_rejected_leaves_connection_open [of mini keyed "store keyed" key_insert
        "''SQLITE_CONSTRAINT: UNIQUE constraint failed: u.id''" "store keyed"
        "''SQLITE_BUSY: unable to close due to unfinalized statements''"]
    by (simp add: keyed_def fresh_def)
  have "handles keyed = 0" by (simp add: keyed_def fresh_def)
  with run mini_insert_again show ?thesis by simp
qed

text \<open>
  The same call through the tool: \<open>write_query\<close> ends with the close's fault, and a
  second call leaves a second connection open.
\<close>

lemma write_query_leaks:
  "write_query ascii mini key_insert keyed =
     (Inl ''SQLITE_BUSY: unable to close due to unfinalized statements'',
      keyed\<lparr>handles := 1, journal := [Executing key_insert, Opened, Close_rejected]\<rparr>)
   \<and> handles (session ascii mini [Write_query key_insert, Write_query key_insert] keyed) = 2"
  by (simp add: write_query_def executeQuery_def try_block_def mini_defs keyed_def ascii_defs)

section \<open>The memo and the ledger\<close>

lemma split_lines_break:
  "CHR 0x0A \<notin> set l \<Longrightarrow> split_lines (l @ CHR 0x0A # rest) = l # split_lines rest"
  by (induction l) auto

lemma split_lines_plain: "CHR 0x0A \<notin> set l \<Longrightarrow> split_lines l = [l]"
  by (induction l) auto

lemma synthesizeMemo_one:
  "synthesizeMemo [a] =
     (chart_emoji @ '' Business Intelligence Memo '' @ chart_emoji) @ CHR 0x0A #
     [] @ CHR 0x0A #
     ''Key Insights Discovered:'' @ CHR 0x0A #
     [] @ CHR 0x0A #
     (''- '' @ a)"
  by (simp add: synthesizeMemo_def)

lemma synthesizeMemo_two:
  "synthesizeMemo [a, b] =
     (chart_emoji @ '' Business Intelligence Memo '' @ chart_emoji) @ CHR 0x0A #
     [] @ CHR 0x0A #
     ''Key Insights Discovered:'' @ CHR 0x0A #
     [] @ CHR 0x0A #
     (''- '' @ a) @ CHR 0x0A #
     (''- '' @ b) @ CHR 0x0A #
     ''Summary:'' @ CHR 0x0A #
     ''Analysis has revealed 2 key business insights that suggest opportunities for strategic optimization and growth.''"
  by (simp add: synthesizeMemo_def showNat.simps)

lemma title_no_break:
  "CHR 0x0A \<notin> set (chart_emoji @ '' Business Intelligence Memo '' @ chart_emoji)"
  by (simp add: chart_emoji_def)

lemma memo_lines_one:
  assumes "CHR 0x0A \<notin> set a"
  shows "split_lines (synthesizeMemo [a]) =
           [chart_emoji @ '' Business Intelligence Memo '' @ chart_emoji, '''',
            ''Key Insights Discovered:'', '''', ''- '' @ a]"
proof -
  have la: "CHR 0x0A \<notin> set (''- '' @ a)" using assms by simp
  have lk: "CHR 0x0A \<notin> set ''Key Insights Discovered:''" by simp
  have le: "CHR 0x0A \<notin> set ''''" by simp
  show ?thesis
    unfolding synthesizeMemo_one
    by (simp only: split_lines_break [OF title_no_break] split_lines_break [OF le]
        split_lines_break [OF lk] split_lines_plain [OF la])
qed

lemma memo_lines_two:
  assumes "CHR 0x0A \<notin> set a" and "CHR 0x0A \<notin> set b"
  shows "split_lines (synthesizeMemo [a, b]) =
           [chart_emoji @ '' Business Intelligence Memo '' @ chart_emoji, '''',
            ''Key Insights Discovered:'', '''', ''- '' @ a, ''- '' @ b, ''Summary:'',
            ''Analysis has revealed 2 key business insights that suggest opportunities for strategic optimization and growth.'']"
proof -
  have la: "CHR 0x0A \<notin> set (''- '' @ a)" using assms by simp
  have lb: "CHR 0x0A \<notin> set (''- '' @ b)" using assms by simp
  have lk: "CHR 0x0A \<notin> set ''Key Insights Discovered:''" by simp
  have ls: "CHR 0x0A \<notin> set ''Summary:''" by simp
  have lt: "CHR 0x0A \<notin> set ''Analysis has revealed 2 key business insights that suggest opportunities for strategic optimization and growth.''"
    by simp
  have le: "CHR 0x0A \<notin> set ''''" by simp
  show ?thesis
    unfolding synthesizeMemo_two
    by (simp only: split_lines_break [OF title_no_break] split_lines_break [OF le]
        split_lines_break [OF lk] split_lines_break [OF la] split_lines_break [OF lb]
        split_lines_break [OF ls] split_lines_plain [OF lt])
qed

text \<open>
  Claim C6, as amended. The memo is a function of the ledger alone. The empty ledger
  gives the sentinel text. For a ledger \<open>[a]\<close> whose insight holds no line break, the
  lines of the memo are the title, an empty line, the heading, an empty line and
  \<open>- a\<close>: exactly one line starts with the bullet mark, it is \<open>- a\<close>, and no line is
  \<open>Summary:\<close>. For a ledger \<open>[a, b]\<close> whose insights hold no line break, the lines are
  the same four, then \<open>- a\<close>, then \<open>- b\<close>, then \<open>Summary:\<close> and the sentence that
  states the count 2; the bulleted lines are those two, in that order.
\<close>

theorem memo_synthesis:
  assumes "CHR 0x0A \<notin> set a" and "CHR 0x0A \<notin> set b"
  shows "synthesizeMemo [] = ''No business insights have been discovered yet.''
   \<and> split_lines (synthesizeMemo [a]) =
       [chart_emoji @ '' Business Intelligence Memo '' @ chart_emoji, '''',
        ''Key Insights Discovered:'', '''', ''- '' @ a]
   \<and> filter (\<lambda>l. startsWith l ''- '') (split_lines (synthesizeMemo [a])) = [''- '' @ a]
   \<and> ''Summary:'' \<notin> set (split_lines (synthesizeMemo [a]))
   \<and> split_lines (synthesizeMemo [a, b]) =
       [chart_emoji @ '' Business Intelligence Memo '' @ chart_emoji, '''',
        ''Key Insights Discovered:'', '''', ''- '' @ a, ''- '' @ b, ''Summary:'',
        ''Analysis has revealed 2 key business insights that suggest opportunities for strategic optimization and growth.'']
   \<and> filter (\<lambda>l. startsWith l ''- '') (split_lines (synthesizeMemo [a, b]))
       = [''- '' @ a, ''- '' @ b]"
proof -
  have s0: "synthesizeMemo [] = ''No business insights have been discovered yet.''"
    by (simp add: synthesizeMemo_def)
  have f1: "filter (\<lambda>l. startsWith l ''- '') (split_lines (synthesizeMemo [a])) = [''- '' @ a]"
    by (simp add: memo_lines_one [OF assms(1)] startsWith_def chart_emoji_def)
  have n1: "''Summary:'' \<notin> set (split_lines (synthesizeMemo [a]))"
    by (simp add: memo_lines_one [OF assms(1)] chart_emoji_def)
  have f2: "filter (\<lambda>l. startsWith l ''- '') (split_lines (synthesizeMemo [a, b]))
       = [''- '' @ a, ''- '' @ b]"
    by (simp add: memo_lines_two [OF assms] startsWith_def chart_emoji_def)
  show ?thesis
    using s0 f1 n1 f2 memo_lines_one [OF assms(1)] memo_lines_two [OF assms] by blast
qed

theorem memo_synthesis_witness:
  "CHR 0x0A \<notin> set ''Sales grew 20%'' \<and> CHR 0x0A \<notin> set ''Churn dropped''
   \<and> split_lines (synthesizeMemo [''Sales grew 20%'']) =
       [chart_emoji @ '' Business Intelligence Memo '' @ chart_emoji, '''',
        ''Key Insights Discovered:'', '''', ''- Sales grew 20%'']
   \<and> filter (\<lambda>l. startsWith l ''- '') (split_lines (synthesizeMemo [''Sales grew 20%'']))
       = [''- Sales grew 20%'']
   \<and> ''Summary:'' \<notin> set (split_lines (synthesizeMemo [''Sales grew 20%'']))
   \<and> split_lines (synthesizeMemo [''Sales grew 20%'', ''Churn dropped'']) =
       [chart_emoji @ '' Business Intelligence Memo '' @ chart_emoji, '''',
        ''Key Insights Discovered:'', '''', ''- Sales grew 20%'', ''- Churn dropped'',
        ''Summary:'',
        ''Analysis has revealed 2 key business insights that suggest opportunities for strategic optimization and growth.'']"
proof -
  have a: "CHR 0x0A \<notin> set ''Sales grew 20%''" by simp
  have b: "CHR 0x0A \<notin> set ''Churn dropped''" by simp
  show ?thesis
    using a b memo_synthesis [OF a b] by (simp add: startsWith_def chart_emoji_def)
qed

text \<open>
  Claim C6 as first stated fails for an insight that holds line breaks: the memo of the
  one-element ledger with the crafted insight is, byte for byte, the memo of the ledger
  \<open>[x, y]\<close>. It has two bulleted lines and a \<open>Summary:\<close> line.
\<close>

theorem memo_line_break_counterexample:
  "synthesizeMemo [crafted_insight] = synthesizeMemo [''x'', ''y'']
   \<and> filter (\<lambda>l. startsWith l ''- '') (split_lines (synthesizeMemo [crafted_insight]))
       = [''- x'', ''- y'']
   \<and> ''Summary:'' \<in> set (split_lines (synthesizeMemo [crafted_insight]))"
proof -
  have e: "synthesizeMemo [crafted_insight] = synthesizeMemo [''x'', ''y'']"
    by (simp add: synthesizeMemo_def crafted_insight_def showNat.simps)
  have x: "CHR 0x0A \<notin> set ''x''" by simp
  have y: "CHR 0x0A \<notin> set ''y''" by simp
  have l: "split_lines (synthesizeMemo [''x'', ''y'']) =
           [chart_emoji @ '' Business Intelligence Memo '' @ chart_emoji, '''',
            ''Key Insights Discovered:'', '''', ''- x'', ''- y'', ''Summary:'',
            ''Analysis has revealed 2 key business insights that suggest opportunities for strategic optimization and growth.'']"
    using memo_lines_two [OF x y] by simp
  show ?thesis
    unfolding e l by (simp add: startsWith_def chart_emoji_def)
qed

lemma call_tool_insights:
  "insights (snd (call_tool rt drv x w)) = insights w @ appended [x]"
  by (cases x)
     (simp_all add: read_query_def write_query_def create_table_def list_tables_def
        describe_table_def append_insight_def Let_def split_beta executeQuery_ledger
        split: sum.split)

lemma appended_Cons: "appended (x # xs) = appended [x] @ appended xs"
  by (cases x) simp_all

lemma session_insights: "insights (session rt drv xs w) = insights w @ appended xs"
proof (induction xs arbitrary: w)
  case Nil
  show ?case by simp
next
  case (Cons x xs)
  have "insights (session rt drv (x # xs) w) = (insights w @ appended [x]) @ appended xs"
    by (simp add: Cons.IH call_tool_insights del: appended.simps)
  then show ?case
    using appended_Cons [of x xs] by simp
qed

text \<open>
  Claim C7. Over any sequence of calls of the six tools, the ledger at the end is the
  ledger at the start followed by the insights of the \<open>append_insight\<close> calls, in call
  order: the old entries stay, unchanged and in place, and the length never goes down.
  One \<open>append_insight\<close> call returns its acknowledgement and makes the ledger exactly one
  entry longer; a call of any of the other five tools leaves the ledger as it was,
  whether its handler returns or throws.
\<close>

theorem ledger_append_only:
  "insights (session rt drv xs w) = insights w @ appended xs
   \<and> prefix (insights w) (insights (session rt drv xs w))
   \<and> length (insights w) \<le> length (insights (session rt drv xs w))
   \<and> call_tool rt drv (Append_insight s) w =
       (Inr \<lparr>content = [''Insight added to memo''], isError = False\<rparr>,
        snd (call_tool rt drv (Append_insight s) w))
   \<and> insights (snd (call_tool rt drv (Append_insight s) w)) = insights w @ [s]
   \<and> length (insights (snd (call_tool rt drv (Append_insight s) w))) = length (insights w) + 1
   \<and> insights (snd (call_tool rt drv (Read_query q) w)) = insights w
   \<and> insights (snd (call_tool rt drv (Write_query q) w)) = insights w
   \<and> insights (snd (call_tool rt drv (Create_table q) w)) = insights w
   \<and> insights (snd (call_tool rt drv List_tables w)) = insights w
   \<and> insights (snd (call_tool rt drv (Describe_table t) w)) = insights w"
proof -
  have one: "\<And>x. insights (snd (call_tool rt drv x w)) = insights w @ appended [x]"
    by (rule call_tool_insights)
  have ack: "call_tool rt drv (Append_insight s) w =
       (Inr \<lparr>content = [''Insight added to memo''], isError = False\<rparr>,
        snd (call_tool rt drv (Append_insight s) w))"
    by (simp add: append_insight_def Let_def)
  show ?thesis
    using ack by (simp add: session_insights one del: call_tool.simps)
qed

text \<open>
  Claim C9. \<open>append_insight\<close> checks nothing about its argument: for every string it
  returns the acknowledgement \<open>Insight added to memo\<close> with \<open>isError = false\<close>, with the
  string appended to the ledger and one notification sent; no exception leaves the
  handler. The empty string is appended like any other.
\<close>

theorem append_insight_accepts_every_string:
  "append_insight s w =
     (Inr \<lparr>content = [''Insight added to memo''], isError = False\<rparr>,
      w\<lparr>insights := insights w @ [s],
        outbox := outbox w @ [\<lparr>notif_method = ''notifications/resources/updated'',
                                params_resource = ''memo://insight''\<rparr>]\<rparr>)
   \<and> fst (append_insight '''' w) =
       Inr \<lparr>content = [''Insight added to memo''], isError = False\<rparr>
   \<and> insights (snd (append_insight '''' w)) = insights w @ ['''']"
  by (simp add: append_insight_def Let_def)

text \<open>
  Claim C10. The notification \<open>append_insight\<close> sends is
  \<open>notifications/resources/updated\<close> for the resource \<open>memo://insight\<close>, which is not the
  URI \<open>memo://insights\<close> the memo resource is registered under and answers with.
\<close>

theorem notification_names_other_uri:
  "outbox (snd (append_insight s w)) =
     outbox w @ [\<lparr>notif_method = ''notifications/resources/updated'',
                   params_resource = ''memo://insight''\<rparr>]
   \<and> params_resource (last (outbox (snd (append_insight s w)))) = ''memo://insight''
   \<and> memo_resource_uri = ''memo://insights''
   \<and> params_resource (last (outbox (snd (append_insight s w)))) \<noteq> memo_resource_uri
   \<and> map res_uri (memo_resource memo_resource_uri w) = [''memo://insights'']"
  by (simp add: append_insight_def Let_def memo_resource_uri_def memo_resource_def)

section \<open>The shape checks\<close>

text \<open>
  Claim C5. Whatever the runtime's \<open>trim\<close> and \<open>toUpperCase\<close> compute: a statement that
  does not pass the shape check of \<open>read_query\<close> (its trimmed, upper-cased text does not
  start with \<open>SELECT\<close>) is answered with \<open>isError = true\<close> and the state is the one
  before the call: nothing was executed, the store and the journal are untouched. The
  same holds for \<open>write_query\<close> and a statement whose trimmed, upper-cased text does
  start with \<open>SELECT\<close>.
\<close>

theorem rejected_call_runs_nothing:
  "(\<not> startsWith (toUpperCase rt (trim rt q)) ''SELECT'' \<longrightarrow>
      read_query rt drv q w =
        (Inr \<lparr>content = [''Only SELECT queries are allowed for read_query''], isError = True\<rparr>, w))
   \<and> (startsWith (toUpperCase rt (trim rt q)) ''SELECT'' \<longrightarrow>
      write_query rt drv q w =
        (Inr \<lparr>content = [''SELECT queries are not allowed for write_query''], isError = True\<rparr>, w))"
  by (simp add: read_query_def write_query_def)

theorem rejected_call_runs_nothing_witness:
  "\<not> startsWith (toUpperCase ascii (trim ascii ''DELETE FROM t'')) ''SELECT''
   \<and> read_query ascii mini ''DELETE FROM t'' fresh =
        (Inr \<lparr>content = [''Only SELECT queries are allowed for read_query''], isError = True\<rparr>, fresh)
   \<and> startsWith (toUpperCase ascii (trim ascii '' select 1'')) ''SELECT''
   \<and> write_query ascii mini '' select 1'' fresh =
        (Inr \<lparr>content = [''SELECT queries are not allowed for write_query''], isError = True\<rparr>, fresh)"
proof -
  have r: "\<not> startsWith (toUpperCase ascii (trim ascii ''DELETE FROM t'')) ''SELECT''"
    by (simp add: ascii_defs)
  have s: "startsWith (toUpperCase ascii (trim ascii '' select 1'')) ''SELECT''"
    by (simp add: ascii_defs)
  show ?thesis
    using r s rejected_call_runs_nothing [of ascii "''DELETE FROM t''" mini fresh]
      rejected_call_runs_nothing [of ascii "'' select 1''" mini fresh]
    by blast
qed

lemma startsWith_iff: "startsWith s p = (\<exists>body. s = p @ body)"
proof
  assume "startsWith s p"
  then have "s = p @ drop (length p) s"
    using append_take_drop_id [of "length p" s] by (simp add: startsWith_def)
  then show "\<exists>body. s = p @ body" ..
next
  assume "\<exists>body. s = p @ body"
  then show "startsWith s p" by (auto simp: startsWith_def)
qed

lemma ran_not_rejected:
  "(case executeQuery drv q w of (Inl e, w') \<Rightarrow> (Inl e, w') | (Inr r, w') \<Rightarrow> (Inr (f r), w'))
     \<noteq> (x, w)"
  using executeQuery_changes_state [of drv q w]
  by (auto split: prod.splits sum.splits)

lemma create_table_invocations:
  assumes "startsWith (toUpperCase rt (trim rt q)) ''CREATE TABLE''"
  shows "invocations (journal (snd (create_table rt drv q w))) =
           invocations (journal w)
             @ (case fst (executeQuery drv q w) of Inl e \<Rightarrow> [q] | Inr r \<Rightarrow> [q, q])"
proof (cases "executeQuery drv q w")
  case (Pair out w1)
  have j1: "invocations (journal w1) = invocations (journal w) @ [q]"
    using executeQuery_invocations [of drv q w] Pair by simp
  show ?thesis
  proof (cases out)
    case (Inl e)
    with Pair j1 assms show ?thesis by (simp add: create_table_def)
  next
    case (Inr r)
    have "invocations (journal (snd (executeQuery drv q w1))) = invocations (journal w) @ [q, q]"
      using executeQuery_invocations [of drv q w1] j1 by simp
    with Pair Inr assms show ?thesis
      by (simp add: create_table_def split_beta split: sum.split prod.split)
  qed
qed

lemma create_table_accepted_changes_state:
  assumes "startsWith (toUpperCase rt (trim rt q)) ''CREATE TABLE''"
  shows "snd (create_table rt drv q w) \<noteq> w"
proof
  assume "snd (create_table rt drv q w) = w"
  then have "invocations (journal (snd (create_table rt drv q w))) = invocations (journal w)"
    by simp
  then show False
    using create_table_invocations [OF assms, of drv w] by (simp split: sum.splits)
qed

text \<open>
  Claim C4. Whatever the runtime's \<open>trim\<close> and \<open>toUpperCase\<close> compute, each handler
  decides by a prefix test on the trimmed, upper-cased statement and by nothing else.
  \<open>read_query\<close> answers with its rejection, the state untouched, exactly when that text
  does not start with \<open>SELECT\<close>; \<open>write_query\<close> exactly when it does; \<open>create_table\<close>
  exactly when it does not start with \<open>CREATE TABLE\<close>. Starting with a keyword means
  being the keyword followed by any text at all: what comes after the keyword is never
  looked at.
\<close>

theorem classification_by_prefix:
  "(read_query rt drv q w =
      (Inr \<lparr>content = [''Only SELECT queries are allowed for read_query''], isError = True\<rparr>, w))
     = (\<not> startsWith (toUpperCase rt (trim rt q)) ''SELECT'')
   \<and> (write_query rt drv q w =
      (Inr \<lparr>content = [''SELECT queries are not allowed for write_query''], isError = True\<rparr>, w))
     = startsWith (toUpperCase rt (trim rt q)) ''SELECT''
   \<and> (create_table rt drv q w =
      (Inr \<lparr>content = [''Only CREATE TABLE statements are allowed''], isError = True\<rparr>, w))
     = (\<not> startsWith (toUpperCase rt (trim rt q)) ''CREATE TABLE'')
   \<and> startsWith (toUpperCase rt (trim rt q)) ''SELECT''
     = (\<exists>body. toUpperCase rt (trim rt q) = ''SELECT'' @ body)
   \<and> startsWith (toUpperCase rt (trim rt q)) ''CREATE TABLE''
     = (\<exists>body. toUpperCase rt (trim rt q) = ''CREATE TABLE'' @ body)"
proof -
  have rd: "(read_query rt drv q w =
      (Inr \<lparr>content = [''Only SELECT queries are allowed for read_query''], isError = True\<rparr>, w))
     = (\<not> startsWith (toUpperCase rt (trim rt q)) ''SELECT'')"
    by (simp add: read_query_def ran_not_rejected)
  have wr: "(write_query rt drv q w =
      (Inr \<lparr>content = [''SELECT queries are not allowed for write_query''], isError = True\<rparr>, w))
     = startsWith (toUpperCase rt (trim rt q)) ''SELECT''"
    by (simp add: write_query_def ran_not_rejected)
  have ct: "(create_table rt drv q w =
      (Inr \<lparr>content = [''Only CREATE TABLE statements are allowed''], isError = True\<rparr>, w))
     = (\<not> startsWith (toUpperCase rt (trim rt q)) ''CREATE TABLE'')"
  proof (cases "startsWith (toUpperCase rt (trim rt q)) ''CREATE TABLE''")
    case True
    from create_table_accepted_changes_state [OF True, of drv w]
    have "create_table rt drv q w \<noteq>
      (Inr \<lparr>content = [''Only CREATE TABLE statements are allowed''], isError = True\<rparr>, w)"
      by (metis snd_conv)
    with True show ?thesis by simp
  next
    case False
    then show ?thesis by (simp add: create_table_def)
  qed
  show ?thesis
    using rd wr ct startsWith_iff [of "toUpperCase rt (trim rt q)" "''SELECT''"]
      startsWith_iff [of "toUpperCase rt (trim rt q)" "''CREATE TABLE''"]
    by blast
qed

text \<open>
  On ASCII statements: \<open>select\<close> in lower case behind blanks is read as \<open>SELECT\<close>, so
  \<open>write_query\<close> rejects the statement and \<open>read_query\<close> does not; a \<open>DELETE\<close> is
  rejected by \<open>read_query\<close> and by \<open>create_table\<close>, and not by \<open>write_query\<close>;
  \<open>create table\<close> behind a tab is not rejected by \<open>create_table\<close>; and a text that
  merely begins with the letters of \<open>select\<close> is not rejected by \<open>read_query\<close>.
\<close>

theorem classification_by_prefix_witness:
  "toUpperCase ascii (trim ascii ''  select * from t '') = ''SELECT * FROM T''
   \<and> write_query ascii mini ''  select * from t '' fresh =
       (Inr \<lparr>content = [''SELECT queries are not allowed for write_query''], isError = True\<rparr>, fresh)
   \<and> read_query ascii mini ''  select * from t '' fresh \<noteq>
       (Inr \<lparr>content = [''Only SELECT queries are allowed for read_query''], isError = True\<rparr>, fresh)
   \<and> read_query ascii mini ''DELETE FROM t'' fresh =
       (Inr \<lparr>content = [''Only SELECT queries are allowed for read_query''], isError = True\<rparr>, fresh)
   \<and> write_query ascii mini ''DELETE FROM t'' fresh \<noteq>
       (Inr \<lparr>content = [''SELECT queries are not allowed for write_query''], isError = True\<rparr>, fresh)
   \<and> create_table ascii mini ''DELETE FROM t'' fresh =
       (Inr \<lparr>content = [''Only CREATE TABLE statements are allowed''], isError = True\<rparr>, fresh)
   \<and> create_table ascii mini (CHR 0x09 # ''create table x (y)'') fresh \<noteq>
       (Inr \<lparr>content = [''Only CREATE TABLE statements are allowed''], isError = True\<rparr>, fresh)
   \<and> read_query ascii mini ''selection of anything'' fresh \<noteq>
       (Inr \<lparr>content = [''Only SELECT queries are allowed for read_query''], isError = True\<rparr>, fresh)"
proof -
  have u: "toUpperCase ascii (trim ascii ''  select * from t '') = ''SELECT * FROM T''"
    by (simp add: ascii_defs)
  have s1: "startsWith (toUpperCase ascii (trim ascii ''  select * from t '')) ''SELECT''"
    by (simp add: ascii_defs)
  have s2: "\<not> startsWith (toUpperCase ascii (trim ascii ''DELETE FROM t'')) ''SELECT''"
    by (simp add: ascii_defs)
  have s3: "\<not> startsWith (toUpperCase ascii (trim ascii ''DELETE FROM t'')) ''CREATE TABLE''"
    by (simp add: ascii_defs)
  have s4: "startsWith (toUpperCase ascii (trim ascii (CHR 0x09 # ''create table x (y)'')))
              ''CREATE TABLE''"
    by (simp add: ascii_defs)
  have s5: "startsWith (toUpperCase ascii (trim ascii ''selection of anything'')) ''SELECT''"
    by (simp add: ascii_defs)
  show ?thesis
    using u s1 s2 s3 s4 s5
      classification_by_prefix [of ascii mini "''  select * from t ''" fresh]
      classification_by_prefix [of ascii mini "''DELETE FROM t''" fresh]
      classification_by_prefix [of ascii mini "CHR 0x09 # ''create table x (y)''" fresh]
      classification_by_prefix [of ascii mini "''selection of anything''" fresh]
    by blast
qed

section \<open>Faults of the executor in \<open>read_query\<close> and \<open>write_query\<close>\<close>






section \<open>\<open>create_table\<close> and its two calls of the executor\<close>

lemma scenario_accepted:
  "startsWith (toUpperCase ascii (trim ascii scenario_create)) ''CREATE TABLE''"
  by (simp add: scenario_create_def ascii_defs)

lemma mini_first_run:
  "executeQuery mini scenario_create fresh = (Inr [], created)"
  by (simp add: executeQuery_def try_block_def mini_defs created_def)

lemma mini_second_run:
  "executeQuery mini scenario_create created =
     (Inl ''SQLITE_ERROR: table t already exists'',
      created\<lparr>journal := journal created @ [Executing scenario_create, Opened, Closed]\<rparr>)"
  by (simp add: executeQuery_def try_block_def mini_defs created_def)

text \<open>
  Claim C1. What the code does at the scenario's input: \<open>create_table\<close> runs an accepted
  statement, and when that run succeeds runs it again; the envelope is the one of the
  second run. So whenever the store takes the statement the first time and rejects it
  the second time, as a store does for \<open>CREATE TABLE t (...)\<close> once \<open>t\<close> exists, the
  handler returns \<open>isError = true\<close> with \<open>Error creating table:\<close> and the store's
  message, although the table was created.
\<close>

theorem create_table_second_run_decides:
  assumes "startsWith (toUpperCase rt (trim rt q)) ''CREATE TABLE''"
      and "executeQuery drv q w = (Inr rows, w1)"
      and "executeQuery drv q w1 = (Inl e, w2)"
  shows "create_table rt drv q w =
           (Inr \<lparr>content = [''Error creating table: '' @ e], isError = True\<rparr>, w2)"
  using assms by (simp add: create_table_def)

theorem create_table_second_run_decides_witness:
  "startsWith (toUpperCase ascii (trim ascii scenario_create)) ''CREATE TABLE''
   \<and> executeQuery mini scenario_create fresh = (Inr [], created)
   \<and> executeQuery mini scenario_create created =
       (Inl ''SQLITE_ERROR: table t already exists'',
        created\<lparr>journal := journal created @ [Executing scenario_create, Opened, Closed]\<rparr>)
   \<and> create_table ascii mini scenario_create fresh =
       (Inr \<lparr>content = [''Error creating table: SQLITE_ERROR: table t already exists''],
             isError = True\<rparr>,
        created\<lparr>journal := journal created @ [Executing scenario_create, Opened, Closed]\<rparr>)"
  using create_table_second_run_decides [OF scenario_accepted mini_first_run mini_second_run]
    scenario_accepted mini_first_run mini_second_run
  by simp

text \<open>
  The rest of the scenario holds on the small store: after the call the catalogue lists
  \<open>t\<close>, and \<open>describe_table\<close> lists the columns \<open>id\<close> and \<open>name\<close>.
\<close>

lemma scenario_tables_after:
  "fst (list_tables mini (snd (create_table ascii mini scenario_create fresh))) =
     Inr \<lparr>content = [''t''], isError = False\<rparr>
   \<and> fst (describe_table mini ''t'' (snd (create_table ascii mini scenario_create fresh))) =
     Inr \<lparr>content = [''id,name''], isError = False\<rparr>"
  by (simp add: list_tables_def describe_table_def create_table_def executeQuery_def
      try_block_def mini_defs ascii_defs)

text \<open>
  Claim C3, as amended. For a statement \<open>create_table\<close> accepts, the executor is entered
  a first time outside the \<open>try\<close>. If that call faults, the fault leaves the handler and
  the executor has been entered once. If it returns, the executor is entered a second
  time with the same statement, inside the \<open>try\<close>: two entries in all, and the outcome of
  the second one alone decides the envelope, success text for rows and
  \<open>Error creating table:\<close> with the message for a fault.
\<close>

theorem create_table_executor_calls:
  assumes "startsWith (toUpperCase rt (trim rt q)) ''CREATE TABLE''"
  shows "case executeQuery drv q w of
           (Inl e, w1) \<Rightarrow>
             create_table rt drv q w = (Inl e, w1)
             \<and> invocations (journal (snd (create_table rt drv q w))) = invocations (journal w) @ [q]
         | (Inr r, w1) \<Rightarrow>
             invocations (journal (snd (create_table rt drv q w))) = invocations (journal w) @ [q, q]
             \<and> create_table rt drv q w =
                 (case executeQuery drv q w1 of
                    (Inr r2, w2) \<Rightarrow>
                      (Inr \<lparr>content = [''Table created successfully: '' @ q],
                            isError = False\<rparr>, w2)
                  | (Inl e, w2) \<Rightarrow>
                      (Inr \<lparr>content = [''Error creating table: '' @ e], isError = True\<rparr>, w2))"
proof (cases "executeQuery drv q w")
  case (Pair out w1)
  show ?thesis
  proof (cases out)
    case (Inl e)
    with Pair assms create_table_invocations [OF assms, of drv w] show ?thesis
      by (simp add: create_table_def)
  next
    case (Inr r)
    with Pair assms create_table_invocations [OF assms, of drv w] show ?thesis
      by (simp add: create_table_def)
  qed
qed

theorem create_table_executor_calls_witness:
  "startsWith (toUpperCase ascii (trim ascii scenario_create)) ''CREATE TABLE''
   \<and> invocations (journal (snd (create_table ascii mini scenario_create fresh))) =
       [scenario_create, scenario_create]
   \<and> create_table ascii mini scenario_create fresh =
       (Inr \<lparr>content = [''Error creating table: SQLITE_ERROR: table t already exists''],
             isError = True\<rparr>,
        created\<lparr>journal := journal created @ [Executing scenario_create, Opened, Closed]\<rparr>)"
  using create_table_executor_calls [OF scenario_accepted, of mini fresh]
    scenario_accepted mini_first_run mini_second_run
  by (simp add: fresh_def created_def)

text \<open>
  Claim C3 as first stated fails at the statement \<open>CREATE TABLE\<close> alone: it passes the
  shape check, the store rejects it at the first call, and the executor is entered once,
  not twice; no envelope is returned.
\<close>

theorem create_table_single_call_counterexample:
  "startsWith (toUpperCase ascii (trim ascii ''CREATE TABLE'')) ''CREATE TABLE''
   \<and> invocations (journal (snd (create_table ascii mini ''CREATE TABLE'' fresh))) = [''CREATE TABLE'']
   \<and> invocations (journal (snd (create_table ascii mini ''CREATE TABLE'' fresh)))
       \<noteq> [''CREATE TABLE'', ''CREATE TABLE'']
   \<and> fst (create_table ascii mini ''CREATE TABLE'' fresh) =
       Inl ''SQLITE_ERROR: syntax error or no such table''"
  by (simp add: create_table_def executeQuery_def try_block_def mini_defs ascii_defs)

end
